theory Spec2Isabelle
  imports Complex_Main "HOL-Library.Sublist"
begin

section \<open>Data model (src/index.tsx, lines 6-39)\<close>

text \<open>
  The dashboard state engine of \<^verbatim>\<open>BuggerApp\<close>: the six pieces of React state and the
  handlers that update them. Every state update of the source is a functional update
  (\<^verbatim>\<open>setX(prev => ...)\<close>) or a constant, so each handler is a function from the state
  to the new state. The random source (\<^verbatim>\<open>Math.random()\<close>), the wall clock and the
  oracle's reply are inputs of the handlers.

  JavaScript numbers are modelled as reals (doubles idealised: no rounding, no
  infinities); the one numeric field that can receive a non-number, \<^verbatim>\<open>threatLevel\<close>,
  has the type \<open>jsnumber\<close> below.
\<close>

datatype log_level = Info | Warning | Error | Security

record LogEntry =
  log_id :: string
  timestamp :: string
  level :: log_level
  message :: string
  source :: string

text \<open>
  A value produced by \<^verbatim>\<open>JSON.parse\<close>, or \<^verbatim>\<open>undefined\<close> (the value of an absent
  property). An object is the list of its own properties; \<open>map_of\<close> reads a property.
  The oracle's findings are of the TypeScript type \<^verbatim>\<open>any\<close>, so nothing restricts them.
\<close>

datatype jsval =
    JUndefined
  | JNull
  | JBool bool
  | JNum real
  | JStr string
  | JArr "jsval list"
  | JObj "(string \<times> jsval) list"

text \<open>
  The content of the field \<^verbatim>\<open>threatLevel\<close>: a number, \<^verbatim>\<open>NaN\<close>, or \<^verbatim>\<open>undefined\<close>
  (written by a scan whose reply has no \<^verbatim>\<open>overallThreatScore\<close>). The model covers a
  score that is a JSON number or absent; a score of another JSON type is outside it.
\<close>

datatype jsnumber = Num real | NaN | Undefined

datatype threat_status = Active | Patched | Analyzing

text \<open>
  A threat is observed through the six properties of the interface \<^verbatim>\<open>Threat\<close>. The
  properties copied from a finding hold whatever the finding held (\<open>JUndefined\<close> when
  the finding lacks the property); \<^verbatim>\<open>status\<close> is only ever written by the handlers.
\<close>

record Threat =
  threat_id :: jsval
  threat_type :: jsval
  severity :: jsval
  description :: jsval
  remediation :: jsval
  status :: threat_status

record SystemMetrics =
  cpu :: real
  memory :: real
  network :: real
  threatLevel :: jsnumber

record app =
  logs :: "LogEntry list"
  threats :: "Threat list"
  metrics :: SystemMetrics
  isShieldActive :: bool
  isScanning :: bool
  terminalText :: string

definition LOG_SOURCES :: "string list" where
  "LOG_SOURCES = [''Kernel'', ''AuthSvc'', ''NetStack'', ''DataLayer'', ''UIRenderer'', ''LeakGuard'']"

definition initial :: app where
  "initial = \<lparr> logs = [], threats = [],
     metrics = \<lparr> cpu = 12, memory = 45, network = 8, threatLevel = Num 2 \<rparr>,
     isShieldActive = True, isScanning = False, terminalText = [] \<rparr>"

section \<open>Telemetry tick (lines 54-89)\<close>

text \<open>
  \<^verbatim>\<open>xs[Math.floor(u * xs.length)]\<close>. \<^verbatim>\<open>Math.random()\<close> returns \<open>0 \<le> u < 1\<close>, so the
  index is in range; for a draw outside that contract JavaScript yields
  \<^verbatim>\<open>undefined\<close>, which the model renders as the empty string.
\<close>

definition pick :: "string list \<Rightarrow> real \<Rightarrow> string" where
  "pick xs u =
     (let k = \<lfloor>u * real (length xs)\<rfloor>
      in if 0 \<le> k \<and> k < int (length xs) then xs ! nat k else [])"

definition generateMockMessage :: "real \<Rightarrow> string" where
  "generateMockMessage u = pick
     [''Heartbeat signal received'',
      ''GET /api/v1/user 200 OK'',
      ''Cache invalidated for key: session_4x9'',
      ''Memory cleanup routine triggered'',
      ''Inbound packet from 192.168.1.45 accepted'',
      ''Database connection pool synchronized'',
      ''Third-party endpoint blocked by LeakGuard'',
      ''Unexpected token in JSON parsing attempt'',
      ''Resource allocation threshold reached''] u"

text \<open>
  Line 59: \<^verbatim>\<open>Math.random() > 0.9 ? 'error' : (Math.random() > 0.8 ? 'warning' : 'info')\<close>.
  The two calls of \<^verbatim>\<open>Math.random()\<close> are two draws, \<open>u1\<close> and \<open>u2\<close>.
\<close>

definition drawLevel :: "real \<Rightarrow> real \<Rightarrow> log_level" where
  "drawLevel u1 u2 = (if u1 > 0.9 then Error else if u2 > 0.8 then Warning else Info)"

text \<open>\<^verbatim>\<open>xs.slice(-n)\<close> for \<open>n > 0\<close>: the last \<open>n\<close> elements, all of them when there are fewer.\<close>

definition slice_last :: "nat \<Rightarrow> 'a list \<Rightarrow> 'a list" where
  "slice_last n xs = drop (length xs - n) xs"

text \<open>What one run of the interval callback draws, in the order of the source.\<close>

record draws =
  d_id :: string
  d_time :: string
  d_level1 :: real
  d_level2 :: real
  d_message :: real
  d_source :: real
  d_cpu :: real
  d_memory :: real
  d_network :: real

definition newLog :: "draws \<Rightarrow> LogEntry" where
  "newLog d = \<lparr> log_id = d_id d, timestamp = d_time d,
     level = drawLevel (d_level1 d) (d_level2 d),
     message = generateMockMessage (d_message d),
     source = pick LOG_SOURCES (d_source d) \<rparr>"

definition telemetryTick :: "draws \<Rightarrow> app \<Rightarrow> app" where
  "telemetryTick d s = s
     \<lparr> logs := slice_last 49 (logs s) @ [newLog d],
       metrics :=
         \<lparr> cpu = min 100 (max 0 (cpu (metrics s) + (d_cpu d - 0.5) * 5)),
           memory = min 100 (max 0 (memory (metrics s) + (d_memory d - 0.5) * 2)),
           network = min 100 (max 0 (network (metrics s) + (d_network d - 0.5) * 10)),
           threatLevel = threatLevel (metrics s) \<rparr> \<rparr>"

section \<open>Operator actions (lines 153-169, 186)\<close>

text \<open>\<^verbatim>\<open>Math.max(0, prev.threatLevel - 15)\<close>: \<^verbatim>\<open>undefined - 15\<close> and \<^verbatim>\<open>NaN - 15\<close> are \<^verbatim>\<open>NaN\<close>,
  and \<^verbatim>\<open>Math.max(0, NaN)\<close> is \<^verbatim>\<open>NaN\<close>.\<close>

fun decayThreatLevel :: "jsnumber \<Rightarrow> jsnumber" where
  "decayThreatLevel (Num r) = Num (max 0 (r - 15))"
| "decayThreatLevel NaN = NaN"
| "decayThreatLevel Undefined = NaN"

definition patchLog :: "string \<Rightarrow> string \<Rightarrow> LogEntry" where
  "patchLog i now = \<lparr> log_id = ''patch-'' @ i, timestamp = now, level = Security,
     message = ''THREAT NEUTRALIZED: Applied patch to system core'',
     source = ''LeakGuard'' \<rparr>"

text \<open>\<^verbatim>\<open>t.id === id\<close> with \<^verbatim>\<open>id\<close> a string holds exactly when \<^verbatim>\<open>t.id\<close> is that string.\<close>

definition patchThreat :: "string \<Rightarrow> string \<Rightarrow> app \<Rightarrow> app" where
  "patchThreat i now s = s
     \<lparr> threats := map (\<lambda>t. if threat_id t = JStr i then t\<lparr>status := Patched\<rparr> else t) (threats s),
       metrics := (metrics s)\<lparr>threatLevel := decayThreatLevel (threatLevel (metrics s))\<rparr>,
       logs := logs s @ [patchLog i now] \<rparr>"

definition clearPatched :: "app \<Rightarrow> app" where
  "clearPatched s = s\<lparr>threats := filter (\<lambda>t. status t \<noteq> Patched) (threats s)\<rparr>"

definition toggleShield :: "app \<Rightarrow> app" where
  "toggleShield s = s\<lparr>isShieldActive := \<not> isShieldActive s\<rparr>"

section \<open>Deep scan (lines 91-151)\<close>

text \<open>
  \<^verbatim>\<open>handleDeepScan\<close> is an async function with one \<^verbatim>\<open>await\<close>. It is modelled as its two
  synchronous parts: \<open>handleDeepScan_begin\<close> runs up to the \<^verbatim>\<open>await\<close> and issues the
  request, \<open>handleDeepScan_resume\<close> runs from the oracle's reply to the end of
  \<^verbatim>\<open>finally\<close>. The request carries the two values interpolated into the prompt.
\<close>

record request =
  recentLogs :: string
  shieldActive :: bool

fun level_name :: "log_level \<Rightarrow> string" where
  "level_name Info = ''info''"
| "level_name Warning = ''warning''"
| "level_name Error = ''error''"
| "level_name Security = ''security''"

definition formatLog :: "LogEntry \<Rightarrow> string" where
  "formatLog l = ''['' @ level_name (level l) @ ''] '' @ source l @ '': '' @ message l"

fun join :: "string \<Rightarrow> string list \<Rightarrow> string" where
  "join sep [] = []"
| "join sep [x] = x"
| "join sep (x # y # ys) = x @ sep @ join sep (y # ys)"

definition handleDeepScan_begin :: "app \<Rightarrow> app \<times> request option" where
  "handleDeepScan_begin s =
     (if isScanning s then (s, None)
      else (s\<lparr> isScanning := True,
               terminalText := ''Initializing neural scan... '' @ [CHR 0x0A]
                 @ ''Accessing application bytecode... '' @ [CHR 0x0A]
                 @ ''Analyzing outbound patterns...'' \<rparr>,
            Some \<lparr> recentLogs = join [CHR 0x0A] (map formatLog (slice_last 10 (logs s))),
                   shieldActive = isShieldActive s \<rparr>))"

text \<open>
  What comes back from the \<^verbatim>\<open>await\<close> and \<^verbatim>\<open>JSON.parse\<close>:
  \<^item> \<open>Rejected\<close>: \<^verbatim>\<open>generateContent\<close> threw (transport or oracle error);
  \<^item> \<open>Unparseable\<close>: \<^verbatim>\<open>JSON.parse(response.text)\<close> threw;
  \<^item> \<open>Parsed f sc\<close>: the text parsed to \<^verbatim>\<open>result\<close>, with \<open>f\<close> the value of
    \<^verbatim>\<open>result.findings\<close> and \<open>sc\<close> that of \<^verbatim>\<open>result.overallThreatScore\<close>. A \<^verbatim>\<open>result\<close>
    that is \<^verbatim>\<open>null\<close> or not an object is \<open>Parsed JUndefined Undefined\<close>: reading the
    property of \<^verbatim>\<open>null\<close> throws the same \<^verbatim>\<open>TypeError\<close>, at the same place, as
    calling \<^verbatim>\<open>.map\<close> on \<^verbatim>\<open>undefined\<close>.
\<close>

datatype reply = Rejected | Unparseable | Parsed jsval jsnumber

datatype scan_error = OracleError | SyntaxError | TypeError

text \<open>
  The part of the \<^verbatim>\<open>try\<close> block that can throw, lines 100-135. Among the values of
  \<^verbatim>\<open>JSON.parse\<close> only an array has a callable \<^verbatim>\<open>map\<close>; the elements of the array and
  the score are not inspected.
\<close>

fun scanResult :: "reply \<Rightarrow> scan_error + (jsval list \<times> jsnumber)" where
  "scanResult Rejected = Inl OracleError"
| "scanResult Unparseable = Inl SyntaxError"
| "scanResult (Parsed (JArr fs) sc) = Inr (fs, sc)"
| "scanResult (Parsed _ sc) = Inl TypeError"

text \<open>The own property \<open>k\<close> of a value, for a name \<open>k\<close> that is not an array index.\<close>

fun own :: "jsval \<Rightarrow> string \<Rightarrow> jsval option" where
  "own (JObj ps) k = map_of ps k"
| "own _ k = None"

definition getProp :: "jsval \<Rightarrow> string \<Rightarrow> jsval" where
  "getProp f k = (case own f k of Some v \<Rightarrow> v | None \<Rightarrow> JUndefined)"

text \<open>
  Lines 135-139: \<^verbatim>\<open>{ id: <token>, ...f, status: 'active' }\<close>. The spread comes after
  \<^verbatim>\<open>id\<close> and before \<^verbatim>\<open>status\<close>: an own \<^verbatim>\<open>id\<close> of the finding replaces the token, an own
  \<^verbatim>\<open>status\<close> of the finding is replaced by \<^verbatim>\<open>'active'\<close>.
\<close>

definition newThreat :: "string \<Rightarrow> jsval \<Rightarrow> Threat" where
  "newThreat tok f =
     \<lparr> threat_id = (case own f ''id'' of Some v \<Rightarrow> v | None \<Rightarrow> JStr tok),
       threat_type = getProp f ''type'',
       severity = getProp f ''severity'',
       description = getProp f ''description'',
       remediation = getProp f ''remediation'',
       status = Active \<rparr>"

text \<open>\<open>rnd i\<close> is the token \<^verbatim>\<open>Math.random().toString(36).substr(2, 9)\<close> drawn for the
  finding at index \<open>i\<close>.\<close>

definition newThreats :: "(nat \<Rightarrow> string) \<Rightarrow> jsval list \<Rightarrow> Threat list" where
  "newThreats rnd fs = map (\<lambda>(i, f). newThreat (rnd i) f) (enumerate 0 fs)"

definition handleDeepScan_resume :: "reply \<Rightarrow> (nat \<Rightarrow> string) \<Rightarrow> app \<Rightarrow> app" where
  "handleDeepScan_resume r rnd s =
     (case scanResult r of
        Inr (fs, sc) \<Rightarrow> s
          \<lparr> threats := take 10 (newThreats rnd fs @ threats s),
            metrics := (metrics s)\<lparr>threatLevel := sc\<rparr>,
            terminalText := ''Scan Complete. Vulnerabilities cataloged.'',
            isScanning := False \<rparr>
      | Inl e \<Rightarrow> s
          \<lparr> terminalText := ''Scan interrupted: Connection to AI core lost.'',
            isScanning := False \<rparr>)"

section \<open>The dashboard as a state machine\<close>

text \<open>
  The application state together with the requests awaiting the oracle's reply. Each
  event runs to completion before the next one (one thread, \<^verbatim>\<open>await\<close> as the only
  suspension point), and a handler sees the state of the latest render. A reply can
  only arrive for a request that is outstanding.
\<close>

record world =
  dashboard :: app
  outstanding :: "request list"

datatype event =
    Tick draws
  | DeepScan
  | OracleReply reply "nat \<Rightarrow> string"
  | PatchThreat string string
  | ClearPatched
  | ToggleShield

fun step :: "world \<Rightarrow> event \<Rightarrow> world" where
  "step w (Tick d) = w\<lparr>dashboard := telemetryTick d (dashboard w)\<rparr>"
| "step w DeepScan =
     (case handleDeepScan_begin (dashboard w) of
        (s', None) \<Rightarrow> w\<lparr>dashboard := s'\<rparr>
      | (s', Some q) \<Rightarrow> w\<lparr>dashboard := s', outstanding := outstanding w @ [q]\<rparr>)"
| "step w (OracleReply r rnd) =
     (case outstanding w of
        [] \<Rightarrow> w
      | q # qs \<Rightarrow> w\<lparr>dashboard := handleDeepScan_resume r rnd (dashboard w), outstanding := qs\<rparr>)"
| "step w (PatchThreat i now) = w\<lparr>dashboard := patchThreat i now (dashboard w)\<rparr>"
| "step w ClearPatched = w\<lparr>dashboard := clearPatched (dashboard w)\<rparr>"
| "step w ToggleShield = w\<lparr>dashboard := toggleShield (dashboard w)\<rparr>"

definition run :: "event list \<Rightarrow> world" where
  "run evs = foldl step \<lparr>dashboard = initial, outstanding = []\<rparr> evs"

section \<open>Notions used in the statements\<close>

subsection \<open>In the words of the specification\<close>

text \<open>
  The patch of the specification's section 4.4 is a no-op for an id when no threat has
  the id or every threat that has it is already patched.
\<close>

definition patchIsNoop :: "string \<Rightarrow> app \<Rightarrow> bool" where
  "patchIsNoop i s = list_all (\<lambda>t. threat_id t = JStr i \<longrightarrow> status t = Patched) (threats s)"

text \<open>
  The response shape of the specification's section 4.5: an array of findings, each
  with the four mandatory properties (three strings and a severity of the enumeration),
  and a numeric score.
\<close>

fun isString :: "jsval \<Rightarrow> bool" where
  "isString (JStr x) = True"
| "isString _ = False"

definition validFinding :: "jsval \<Rightarrow> bool" where
  "validFinding f =
     (isString (getProp f ''type'')
      \<and> getProp f ''severity'' \<in> set [JStr ''low'', JStr ''medium'', JStr ''high'', JStr ''critical'']
      \<and> isString (getProp f ''description'')
      \<and> isString (getProp f ''remediation''))"

fun conformsToSchema :: "reply \<Rightarrow> bool" where
  "conformsToSchema (Parsed (JArr fs) (Num r)) = list_all validFinding fs"
| "conformsToSchema _ = False"

text \<open>The level rule in the words of the specification's section 4.1: one uniform draw.\<close>

definition specLevel :: "real \<Rightarrow> log_level" where
  "specLevel u = (if u > 0.9 then Error else if u > 0.8 then Warning else Info)"

subsection \<open>Read off the code\<close>

text \<open>What \<^verbatim>\<open>result.findings.map\<close> needs: an array.\<close>

fun isArray :: "jsval \<Rightarrow> bool" where
  "isArray (JArr fs) = True"
| "isArray _ = False"

text \<open>At most one request is outstanding, and exactly while \<^verbatim>\<open>isScanning\<close> is set.\<close>

definition scanInvariant :: "world \<Rightarrow> bool" where
  "scanInvariant w = (length (outstanding w) \<le> 1 \<and> (isScanning (dashboard w) = (outstanding w \<noteq> [])))"

text \<open>
  The ranges of the two draws cut into ten intervals of equal length each: the cell
  \<open>(i, j)\<close> holds the draws with \<open>i / 10 < u1 \<le> (i + 1) / 10\<close> and
  \<open>j / 10 < u2 \<le> (j + 1) / 10\<close>; \<open>cellLevel\<close> is the level at its midpoint. For two
  independent uniform draws each of the 100 cells has probability 1/100.
\<close>

definition cellLevel :: "nat \<Rightarrow> nat \<Rightarrow> log_level" where
  "cellLevel i j = drawLevel ((2 * real i + 1) / 20) ((2 * real j + 1) / 20)"

definition countLevel :: "log_level \<Rightarrow> nat" where
  "countLevel l = length (filter (\<lambda>(i, j). cellLevel i j = l) (List.product [0..<10] [0..<10]))"

subsection \<open>Example values\<close>

definition threat_a :: Threat where
  "threat_a = \<lparr> threat_id = JStr ''a1'', threat_type = JStr ''leak'', severity = JStr ''high'',
     description = JStr ''d'', remediation = JStr ''r'', status = Active \<rparr>"

definition threat_b :: Threat where
  "threat_b = \<lparr> threat_id = JStr ''b2'', threat_type = JStr ''xss'', severity = JStr ''low'',
     description = JStr ''e'', remediation = JStr ''q'', status = Patched \<rparr>"

text \<open>One active and one patched threat, \<^verbatim>\<open>threatLevel\<close> 50.\<close>

definition one_active :: app where
  "one_active = initial\<lparr> threats := [threat_a, threat_b],
     metrics := \<lparr> cpu = 12, memory = 45, network = 8, threatLevel = Num 50 \<rparr> \<rparr>"

text \<open>The draws of one telemetry tick.\<close>

definition draws0 :: draws where
  "draws0 = \<lparr> d_id = ''k3j9x0q1z'', d_time = ''12:00:00'', d_level1 = 0.5, d_level2 = 0.85,
     d_message = 0.15, d_source = 0.4, d_cpu = 0.9, d_memory = 0.1, d_network = 0.5 \<rparr>"

text \<open>A reply with one finding that lacks two mandatory properties and has a severity
  outside the enumeration, and with no score.\<close>

definition malformed_reply :: reply where
  "malformed_reply =
     Parsed (JArr [JObj [(''type'', JStr ''leak''), (''severity'', JStr ''catastrophic'')]]) Undefined"

text \<open>A finding that carries an \<^verbatim>\<open>id\<close> of its own, and one of the schema's shape.\<close>

definition finding_with_id :: jsval where
  "finding_with_id = JObj [(''id'', JStr ''a1''), (''type'', JStr ''leak''), (''severity'', JStr ''high''),
     (''description'', JStr ''d''), (''remediation'', JStr ''r'')]"

definition finding_ok :: jsval where
  "finding_ok = JObj [(''type'', JStr ''leak''), (''severity'', JStr ''high''),
     (''description'', JStr ''d''), (''remediation'', JStr ''r'')]"

section \<open>Patch action\<close>

text \<open>
  C1 (as the code has it). When \<^verbatim>\<open>patchThreat(id)\<close> is a no-op for the registry (the id
  matches no threat, or every matching threat is already patched), the registry is left
  unchanged, and patching the same id twice leaves the registry as patching it once.
  The decay of \<^verbatim>\<open>threatLevel\<close> by 15 (floored at 0) and the append of the audit entry
  are not conditional: they happen on every call.
\<close>

theorem patchThreat_noop_registry:
  "(patchIsNoop i s \<longrightarrow> threats (patchThreat i now s) = threats s)
   \<and> threats (patchThreat i now' (patchThreat i now s)) = threats (patchThreat i now s)
   \<and> logs (patchThreat i now s) = logs s @ [patchLog i now]
   \<and> threatLevel (metrics (patchThreat i now s)) = decayThreatLevel (threatLevel (metrics s))"
  by (auto simp add: patchThreat_def patchIsNoop_def list_all_iff map_idI)

theorem patchThreat_noop_registry_witness:
  "patchIsNoop ''b2'' one_active
   \<and> threats (patchThreat ''b2'' ''12:00:00'' one_active) = threats one_active
   \<and> logs (patchThreat ''b2'' ''12:00:00'' one_active) = [patchLog ''b2'' ''12:00:00'']
   \<and> threatLevel (metrics (patchThreat ''b2'' ''12:00:00'' one_active)) = Num 35"
proof -
  have h: "patchIsNoop ''b2'' one_active"
    by (simp add: patchIsNoop_def one_active_def threat_a_def threat_b_def)
  with patchThreat_noop_registry [of "''b2''" one_active "''12:00:00''"]
  have "threats (patchThreat ''b2'' ''12:00:00'' one_active) = threats one_active"
    and "logs (patchThreat ''b2'' ''12:00:00'' one_active) = logs one_active @ [patchLog ''b2'' ''12:00:00'']"
    and "threatLevel (metrics (patchThreat ''b2'' ''12:00:00'' one_active))
         = decayThreatLevel (threatLevel (metrics one_active))"
    by blast+
  then show ?thesis
    using h by (simp add: one_active_def initial_def)
qed

text \<open>
  C1 as stated fails: patching an id that matches no threat of the initial state
  appends an audit entry and lowers \<^verbatim>\<open>threatLevel\<close> from 2 to 0.
\<close>

theorem patchThreat_noop_counterexample:
  "patchIsNoop ''nonexistent'' initial
   \<and> logs initial = []
   \<and> logs (patchThreat ''nonexistent'' ''12:00:00'' initial) = [patchLog ''nonexistent'' ''12:00:00'']
   \<and> threatLevel (metrics initial) = Num 2
   \<and> threatLevel (metrics (patchThreat ''nonexistent'' ''12:00:00'' initial)) = Num 0"
  by (simp add: patchThreat_def patchIsNoop_def initial_def)

text \<open>
  C10. \<^verbatim>\<open>patchThreat(id)\<close> keeps the length and the order of the registry; the threat at
  each position is the old one, with \<^verbatim>\<open>status\<close> set to patched when its id is the given
  one; so id, type, severity, description and remediation of every threat are kept, and
  a threat with another id is unchanged. The gauges cpu, memory and network are
  unchanged, and a numeric \<^verbatim>\<open>threatLevel\<close> \<open>r\<close> becomes \<open>max 0 (r - 15)\<close>.
\<close>

theorem patchThreat_frame:
  "length (threats (patchThreat i now s)) = length (threats s)
   \<and> (\<forall>k < length (threats s).
         threats (patchThreat i now s) ! k =
           (if threat_id (threats s ! k) = JStr i then (threats s ! k)\<lparr>status := Patched\<rparr>
            else threats s ! k)
       \<and> threat_id (threats (patchThreat i now s) ! k) = threat_id (threats s ! k)
       \<and> threat_type (threats (patchThreat i now s) ! k) = threat_type (threats s ! k)
       \<and> severity (threats (patchThreat i now s) ! k) = severity (threats s ! k)
       \<and> description (threats (patchThreat i now s) ! k) = description (threats s ! k)
       \<and> remediation (threats (patchThreat i now s) ! k) = remediation (threats s ! k))
   \<and> cpu (metrics (patchThreat i now s)) = cpu (metrics s)
   \<and> memory (metrics (patchThreat i now s)) = memory (metrics s)
   \<and> network (metrics (patchThreat i now s)) = network (metrics s)
   \<and> (\<forall>r. threatLevel (metrics s) = Num r \<longrightarrow>
         threatLevel (metrics (patchThreat i now s)) = Num (max 0 (r - 15)))"
  by (simp add: patchThreat_def)

theorem patchThreat_frame_witness:
  "(\<exists>t \<in> set (threats one_active). threat_id t = JStr ''a1'')
   \<and> threats (patchThreat ''a1'' ''12:00:00'' one_active) = [threat_a\<lparr>status := Patched\<rparr>, threat_b]
   \<and> cpu (metrics (patchThreat ''a1'' ''12:00:00'' one_active)) = 12
   \<and> threatLevel (metrics (patchThreat ''a1'' ''12:00:00'' one_active)) = Num 35"
proof -
  have tl: "threatLevel (metrics one_active) = Num 50" and c: "cpu (metrics one_active) = 12"
    by (simp_all add: one_active_def)
  with patchThreat_frame [of "''a1''" "''12:00:00''" one_active]
  have "cpu (metrics (patchThreat ''a1'' ''12:00:00'' one_active)) = 12"
    and "threatLevel (metrics (patchThreat ''a1'' ''12:00:00'' one_active)) = Num (max 0 (50 - 15))"
    by simp_all
  moreover have "threats (patchThreat ''a1'' ''12:00:00'' one_active)
      = [threat_a\<lparr>status := Patched\<rparr>, threat_b]"
    by (simp add: patchThreat_def one_active_def threat_a_def threat_b_def)
  moreover have "\<exists>t \<in> set (threats one_active). threat_id t = JStr ''a1''"
    by (simp add: one_active_def threat_a_def)
  ultimately show ?thesis by simp
qed

section \<open>Gauges\<close>

text \<open>The telemetry tick clamps the three gauges it writes and leaves \<^verbatim>\<open>threatLevel\<close>.\<close>

lemma telemetryTick_gauges_clamped:
  "0 \<le> cpu (metrics (telemetryTick d s)) \<and> cpu (metrics (telemetryTick d s)) \<le> 100
   \<and> 0 \<le> memory (metrics (telemetryTick d s)) \<and> memory (metrics (telemetryTick d s)) \<le> 100
   \<and> 0 \<le> network (metrics (telemetryTick d s)) \<and> network (metrics (telemetryTick d s)) \<le> 100
   \<and> threatLevel (metrics (telemetryTick d s)) = threatLevel (metrics s)"
  by (simp add: telemetryTick_def)

text \<open>The decay of the patch action is floored at 0.\<close>

lemma decayThreatLevel_floor: "decayThreatLevel v = Num r \<Longrightarrow> 0 \<le> r"
  by (cases v) auto

text \<open>
  C2 fails on the scan's write: line 142 stores the oracle's \<^verbatim>\<open>overallThreatScore\<close> as it
  is, with no clamp. A reply with an empty finding list and the score 150 leaves
  \<^verbatim>\<open>threatLevel\<close> at 150, above the range 0-100 that the interface documents (line 28).
\<close>

theorem scan_score_unclamped:
  "threatLevel (metrics (handleDeepScan_resume (Parsed (JArr []) (Num 150)) (\<lambda>k. ''k3j9x0q1z'') initial))
     = Num 150"
  by (simp add: handleDeepScan_resume_def)

section \<open>Log store\<close>

lemma length_slice_last: "length (slice_last n xs) = min n (length xs)"
  by (simp add: slice_last_def)

lemma telemetryTick_logs_length:
  "length (logs (telemetryTick d s)) = Suc (min 49 (length (logs s)))"
  by (simp add: telemetryTick_def length_slice_last)

lemma telemetryTick_logs_bounded: "length (logs (telemetryTick d s)) \<le> 50"
  by (simp add: telemetryTick_logs_length)

lemma slice_last_snoc: "slice_last (Suc n) (ys @ [x]) = slice_last n ys @ [x]"
  by (simp add: slice_last_def Suc_diff_le)

lemma slice_last_slice_last: "n \<le> m \<Longrightarrow> slice_last n (slice_last m ys) = slice_last n ys"
  by (simp add: slice_last_def) (rule arg_cong [where f = "\<lambda>k. drop k ys"], arith)

lemma ticks_logs:
  "ds \<noteq> [] \<Longrightarrow> logs (fold telemetryTick ds s) = slice_last 50 (logs s @ map newLog ds)"
proof (induction ds arbitrary: s rule: rev_induct)
  case Nil
  then show ?case by simp
next
  case (snoc d ds)
  have tick: "logs (telemetryTick d t) = slice_last 49 (logs t) @ [newLog d]" for t
    by (simp add: telemetryTick_def)
  have fifty: "slice_last 50 (ys @ [x]) = slice_last 49 ys @ [x]" for ys :: "LogEntry list" and x
    using slice_last_snoc [of 49 ys x] by simp
  show ?case
  proof (cases "ds = []")
    case True
    then show ?thesis
      by (simp add: tick fifty)
  next
    case False
    with snoc.IH have "logs (fold telemetryTick ds s) = slice_last 50 (logs s @ map newLog ds)"
      by simp
    then show ?thesis
      by (simp add: tick slice_last_slice_last fifty [of "logs s @ map newLog ds", simplified])
  qed
qed

text \<open>After more than 50 ticks the log holds the entries of the last 50 ticks, oldest first.\<close>

lemma ticks_keep_last_50:
  "50 < length ds \<Longrightarrow>
     logs (fold telemetryTick ds initial) = map newLog (slice_last 50 ds)
     \<and> length (logs (fold telemetryTick ds initial)) = 50"
proof -
  assume n: "50 < length ds"
  then have "ds \<noteq> []" by auto
  then have "logs (fold telemetryTick ds initial) = slice_last 50 (map newLog ds)"
    using ticks_logs [of ds initial] by (simp add: initial_def)
  then show ?thesis
    using n by (simp add: slice_last_def drop_map)
qed

text \<open>
  C3 fails on the patch action: line 164 appends the audit entry with no eviction, where
  the telemetry tick (line 63) keeps the last 49 entries before appending. After 50 ticks
  the log holds 50 entries, and a patch then makes it 51.
\<close>

theorem patch_log_exceeds_cap:
  "length (logs (fold telemetryTick (replicate 50 draws0) initial)) = 50
   \<and> length (logs (patchThreat ''a1'' ''12:00:00'' (fold telemetryTick (replicate 50 draws0) initial))) = 51"
  using ticks_logs [of "replicate 50 draws0" initial]
  by (simp add: patchThreat_def initial_def slice_last_def)

section \<open>Deep scan\<close>

text \<open>The \<^verbatim>\<open>try\<close> block throws exactly for a rejected call, an unparseable text and
  findings that are not an array.\<close>

lemma scanResult_fails_iff:
  "(\<exists>e. scanResult r = Inl e)
     = (r = Rejected \<or> r = Unparseable \<or> (\<exists>f sc. r = Parsed f sc \<and> \<not> isArray f))"
proof (cases r)
  case (Parsed f sc)
  then show ?thesis by (cases f) simp_all
qed simp_all

text \<open>
  C4 (as the code has it). When the oracle call throws, the response text does not
  parse, or the parsed value has no array under \<^verbatim>\<open>findings\<close>, the scan changes neither
  the registry nor the metrics (nor the log): it sets the status message
  "Scan interrupted" and clears \<^verbatim>\<open>isScanning\<close>.
\<close>

theorem scan_failure_no_mutation:
  "r = Rejected \<or> r = Unparseable \<or> (\<exists>f sc. r = Parsed f sc \<and> \<not> isArray f) \<Longrightarrow>
     threats (handleDeepScan_resume r rnd s) = threats s
     \<and> metrics (handleDeepScan_resume r rnd s) = metrics s
     \<and> logs (handleDeepScan_resume r rnd s) = logs s
     \<and> terminalText (handleDeepScan_resume r rnd s) = ''Scan interrupted: Connection to AI core lost.''
     \<and> \<not> isScanning (handleDeepScan_resume r rnd s)"
proof -
  assume "r = Rejected \<or> r = Unparseable \<or> (\<exists>f sc. r = Parsed f sc \<and> \<not> isArray f)"
  then obtain e where "scanResult r = Inl e"
    using scanResult_fails_iff [of r] by blast
  then show ?thesis
    by (simp add: handleDeepScan_resume_def)
qed

theorem scan_failure_no_mutation_witness:
  "\<not> isArray JNull
   \<and> threats (handleDeepScan_resume (Parsed JNull (Num 42)) (\<lambda>k. ''k3j9x0q1z'') one_active) = [threat_a, threat_b]
   \<and> threatLevel (metrics (handleDeepScan_resume (Parsed JNull (Num 42)) (\<lambda>k. ''k3j9x0q1z'') one_active)) = Num 50
   \<and> threats (handleDeepScan_resume Rejected (\<lambda>k. ''k3j9x0q1z'') one_active) = [threat_a, threat_b]"
proof -
  have "\<not> isArray JNull" by simp
  then have "Parsed JNull (Num 42) = Rejected \<or> Parsed JNull (Num 42) = Unparseable
      \<or> (\<exists>f sc. Parsed JNull (Num 42) = Parsed f sc \<and> \<not> isArray f)"
    by blast
  from scan_failure_no_mutation [OF this, of "\<lambda>k. ''k3j9x0q1z''" one_active]
    scan_failure_no_mutation [of Rejected "\<lambda>k. ''k3j9x0q1z''" one_active]
  show ?thesis
    by (simp add: one_active_def)
qed

text \<open>
  C4 as stated fails: the elements of the finding list and the score are not validated.
  A reply whose finding lacks \<^verbatim>\<open>description\<close> and \<^verbatim>\<open>remediation\<close>, has the severity
  "catastrophic" and comes with no score is ingested: the registry gains the threat and
  \<^verbatim>\<open>threatLevel\<close> becomes \<^verbatim>\<open>undefined\<close>.
\<close>

theorem scan_malformed_counterexample:
  "\<not> conformsToSchema malformed_reply
   \<and> threats initial = []
   \<and> threats (handleDeepScan_resume malformed_reply (\<lambda>k. ''k3j9x0q1z'') initial) =
       [\<lparr> threat_id = JStr ''k3j9x0q1z'', threat_type = JStr ''leak'', severity = JStr ''catastrophic'',
          description = JUndefined, remediation = JUndefined, status = Active \<rparr>]
   \<and> threatLevel (metrics initial) = Num 2
   \<and> threatLevel (metrics (handleDeepScan_resume malformed_reply (\<lambda>k. ''k3j9x0q1z'') initial)) = Undefined"
  by (simp add: malformed_reply_def handleDeepScan_resume_def newThreats_def newThreat_def
      getProp_def initial_def enumerate_eq_zip)

lemma length_newThreats: "length (newThreats rnd fs) = length fs"
  by (simp add: newThreats_def)

lemma nth_newThreats: "k < length fs \<Longrightarrow> newThreats rnd fs ! k = newThreat (rnd k) (fs ! k)"
  by (simp add: newThreats_def nth_enumerate_eq)

lemma resume_threats_bounded: "length (threats s) \<le> 10 \<Longrightarrow> length (threats (handleDeepScan_resume r rnd s)) \<le> 10"
  by (auto simp add: handleDeepScan_resume_def split: sum.splits)

lemma step_threats_bounded:
  "length (threats (dashboard w)) \<le> 10 \<Longrightarrow> length (threats (dashboard (step w e))) \<le> 10"
proof (cases e)
  case (Tick d)
  assume "length (threats (dashboard w)) \<le> 10"
  with Tick show ?thesis by (simp add: telemetryTick_def)
next
  case DeepScan
  assume "length (threats (dashboard w)) \<le> 10"
  with DeepScan show ?thesis by (simp add: handleDeepScan_begin_def)
next
  case (OracleReply r rnd)
  assume "length (threats (dashboard w)) \<le> 10"
  with OracleReply show ?thesis
    by (cases "outstanding w") (simp_all add: resume_threats_bounded)
next
  case (PatchThreat i now)
  assume "length (threats (dashboard w)) \<le> 10"
  with PatchThreat show ?thesis by (simp add: patchThreat_def)
next
  case ClearPatched
  assume "length (threats (dashboard w)) \<le> 10"
  with ClearPatched show ?thesis
    by (simp add: clearPatched_def le_trans [OF length_filter_le])
next
  case ToggleShield
  assume "length (threats (dashboard w)) \<le> 10"
  with ToggleShield show ?thesis by (simp add: toggleShield_def)
qed

lemma foldl_step_threats_bounded:
  "length (threats (dashboard w)) \<le> 10 \<Longrightarrow> length (threats (dashboard (foldl step w evs))) \<le> 10"
  by (induction evs arbitrary: w) (simp_all add: step_threats_bounded)

lemma run_threats_bounded: "length (threats (dashboard (run evs))) \<le> 10"
  unfolding run_def by (rule foldl_step_threats_bounded) (simp add: initial_def)

text \<open>
  C5 (as the code has it). On a successful scan every finding becomes a threat with
  status active that copies the finding's type, severity, description and remediation;
  its id is the freshly drawn token when the finding has no \<^verbatim>\<open>id\<close> property of its own.
  The new threats come first, in the order of the findings, followed by the existing
  ones, and the sequence is cut to its first 10 entries, whatever their status. The
  registry never holds more than 10 entries, after any sequence of events.
\<close>

theorem scan_ingest:
  "scanResult r = Inr (fs, sc) \<Longrightarrow>
     threats (handleDeepScan_resume r rnd s) = take 10 (newThreats rnd fs @ threats s)
     \<and> length (threats (handleDeepScan_resume r rnd s)) = min 10 (length fs + length (threats s))
     \<and> length (newThreats rnd fs) = length fs
     \<and> (\<forall>k < length fs.
           status (newThreats rnd fs ! k) = Active
           \<and> (own (fs ! k) ''id'' = None \<longrightarrow> threat_id (newThreats rnd fs ! k) = JStr (rnd k))
           \<and> threat_type (newThreats rnd fs ! k) = getProp (fs ! k) ''type''
           \<and> severity (newThreats rnd fs ! k) = getProp (fs ! k) ''severity''
           \<and> description (newThreats rnd fs ! k) = getProp (fs ! k) ''description''
           \<and> remediation (newThreats rnd fs ! k) = getProp (fs ! k) ''remediation'')
     \<and> (\<forall>k < min 10 (length fs). threats (handleDeepScan_resume r rnd s) ! k = newThreats rnd fs ! k)
     \<and> (\<forall>k. length fs \<le> k \<and> k < min 10 (length fs + length (threats s)) \<longrightarrow>
           threats (handleDeepScan_resume r rnd s) ! k = threats s ! (k - length fs))
     \<and> length (threats (dashboard (run evs))) \<le> 10"
proof -
  assume ok: "scanResult r = Inr (fs, sc)"
  then have eq: "threats (handleDeepScan_resume r rnd s) = take 10 (newThreats rnd fs @ threats s)"
    by (simp add: handleDeepScan_resume_def)
  have new: "\<forall>k < length fs.
           status (newThreats rnd fs ! k) = Active
           \<and> (own (fs ! k) ''id'' = None \<longrightarrow> threat_id (newThreats rnd fs ! k) = JStr (rnd k))
           \<and> threat_type (newThreats rnd fs ! k) = getProp (fs ! k) ''type''
           \<and> severity (newThreats rnd fs ! k) = getProp (fs ! k) ''severity''
           \<and> description (newThreats rnd fs ! k) = getProp (fs ! k) ''description''
           \<and> remediation (newThreats rnd fs ! k) = getProp (fs ! k) ''remediation''"
    by (simp add: nth_newThreats newThreat_def)
  have front: "\<forall>k < min 10 (length fs). threats (handleDeepScan_resume r rnd s) ! k = newThreats rnd fs ! k"
    by (simp add: eq nth_append length_newThreats)
  have rest: "\<forall>k. length fs \<le> k \<and> k < min 10 (length fs + length (threats s)) \<longrightarrow>
           threats (handleDeepScan_resume r rnd s) ! k = threats s ! (k - length fs)"
    by (auto simp add: eq nth_append length_newThreats)
  have "length (threats (handleDeepScan_resume r rnd s)) = min 10 (length fs + length (threats s))"
    by (simp add: eq length_newThreats min.commute)
  with eq new front rest show ?thesis
    using run_threats_bounded [of evs] length_newThreats [of rnd fs] by blast
qed


theorem scan_ingest_witness:
  "scanResult (Parsed (JArr [finding_ok]) (Num 42)) = Inr ([finding_ok], Num 42)
   \<and> own finding_ok ''id'' = None
   \<and> threats (handleDeepScan_resume (Parsed (JArr [finding_ok]) (Num 42)) (\<lambda>k. ''k3j9x0q1z'') one_active)
       = [\<lparr> threat_id = JStr ''k3j9x0q1z'', threat_type = JStr ''leak'', severity = JStr ''high'',
            description = JStr ''d'', remediation = JStr ''r'', status = Active \<rparr>, threat_a, threat_b]
   \<and> length (threats (handleDeepScan_resume (Parsed (JArr [finding_ok]) (Num 42)) (\<lambda>k. ''k3j9x0q1z'') one_active)) = 3"
proof -
  have ok: "scanResult (Parsed (JArr [finding_ok]) (Num 42)) = Inr ([finding_ok], Num 42)"
    by simp
  have noid: "own finding_ok ''id'' = None"
    by (simp add: finding_ok_def)
  have new: "newThreats (\<lambda>k. ''k3j9x0q1z'') [finding_ok]
      = [\<lparr> threat_id = JStr ''k3j9x0q1z'', threat_type = JStr ''leak'', severity = JStr ''high'',
            description = JStr ''d'', remediation = JStr ''r'', status = Active \<rparr>]"
    by (simp add: newThreats_def newThreat_def getProp_def finding_ok_def enumerate_eq_zip)
  from scan_ingest [OF ok, of "\<lambda>k. ''k3j9x0q1z''" one_active "[]"]
  have "threats (handleDeepScan_resume (Parsed (JArr [finding_ok]) (Num 42)) (\<lambda>k. ''k3j9x0q1z'') one_active)
      = take 10 (newThreats (\<lambda>k. ''k3j9x0q1z'') [finding_ok] @ threats one_active)"
    and "length (threats (handleDeepScan_resume (Parsed (JArr [finding_ok]) (Num 42)) (\<lambda>k. ''k3j9x0q1z'') one_active))
      = min 10 (length [finding_ok] + length (threats one_active))"
    by blast+
  with ok noid new show ?thesis
    by (simp add: one_active_def)
qed

text \<open>
  C5 as stated fails for a finding that has an \<^verbatim>\<open>id\<close> property: the spread
  \<^verbatim>\<open>...f\<close> comes after \<^verbatim>\<open>id\<close> (line 137), so the finding's id replaces the drawn token,
  here with the id of a threat that is already in the registry.
\<close>

theorem scan_ingest_id_counterexample:
  "scanResult (Parsed (JArr [finding_with_id]) (Num 42)) = Inr ([finding_with_id], Num 42)
   \<and> map threat_id (threats (handleDeepScan_resume (Parsed (JArr [finding_with_id]) (Num 42))
        (\<lambda>k. ''k3j9x0q1z'') one_active)) = [JStr ''a1'', JStr ''a1'', JStr ''b2'']"
  by (simp add: handleDeepScan_resume_def newThreats_def newThreat_def getProp_def
      finding_with_id_def one_active_def threat_a_def threat_b_def enumerate_eq_zip)

lemma step_scanInvariant: "scanInvariant w \<Longrightarrow> scanInvariant (step w e)"
proof (cases e)
  case (Tick d)
  assume "scanInvariant w"
  with Tick show ?thesis by (simp add: scanInvariant_def telemetryTick_def)
next
  case DeepScan
  assume "scanInvariant w"
  with DeepScan show ?thesis
    by (cases "outstanding w") (auto simp add: scanInvariant_def handleDeepScan_begin_def)
next
  case (OracleReply r rnd)
  assume "scanInvariant w"
  with OracleReply show ?thesis
    by (cases "outstanding w")
      (auto simp add: scanInvariant_def handleDeepScan_resume_def split: sum.splits)
next
  case (PatchThreat i now)
  assume "scanInvariant w"
  with PatchThreat show ?thesis by (simp add: scanInvariant_def patchThreat_def)
next
  case ClearPatched
  assume "scanInvariant w"
  with ClearPatched show ?thesis by (simp add: scanInvariant_def clearPatched_def)
next
  case ToggleShield
  assume "scanInvariant w"
  with ToggleShield show ?thesis by (simp add: scanInvariant_def toggleShield_def)
qed

lemma foldl_step_scanInvariant: "scanInvariant w \<Longrightarrow> scanInvariant (foldl step w evs)"
  by (induction evs arbitrary: w) (simp_all add: step_scanInvariant)

lemma run_scanInvariant: "scanInvariant (run evs)"
  unfolding run_def by (rule foldl_step_scanInvariant) (simp add: scanInvariant_def initial_def)

text \<open>
  C6. While \<^verbatim>\<open>isScanning\<close> is set, \<^verbatim>\<open>handleDeepScan\<close> returns at once: it issues no request
  and changes nothing (phase included). Whatever the reply (success or any failure),
  the resumed scan clears \<^verbatim>\<open>isScanning\<close>. After any sequence of events at most one
  request is outstanding, and one is outstanding exactly while \<^verbatim>\<open>isScanning\<close> is set.
\<close>

theorem scan_exclusive:
  "(isScanning s \<longrightarrow> handleDeepScan_begin s = (s, None))
   \<and> (isScanning (dashboard w) \<longrightarrow> step w DeepScan = w)
   \<and> \<not> isScanning (handleDeepScan_resume r rnd s)
   \<and> length (outstanding (run evs)) \<le> 1
   \<and> (isScanning (dashboard (run evs)) = (outstanding (run evs) \<noteq> []))
   \<and> (outstanding w \<noteq> [] \<longrightarrow> \<not> isScanning (dashboard (step w (OracleReply r rnd))))"
proof -
  have "\<not> isScanning (handleDeepScan_resume r rnd s)" for s
    by (simp add: handleDeepScan_resume_def split: sum.splits)
  moreover from this have "outstanding w \<noteq> [] \<longrightarrow> \<not> isScanning (dashboard (step w (OracleReply r rnd)))"
    by (cases "outstanding w") simp_all
  moreover have "isScanning s \<longrightarrow> handleDeepScan_begin s = (s, None)"
    by (simp add: handleDeepScan_begin_def)
  moreover have "isScanning (dashboard w) \<longrightarrow> step w DeepScan = w"
    by (simp add: handleDeepScan_begin_def)
  ultimately show ?thesis
    using run_scanInvariant [of evs] by (simp add: scanInvariant_def)
qed

theorem scan_exclusive_witness:
  "isScanning (dashboard (run [DeepScan]))
   \<and> step (run [DeepScan]) DeepScan = run [DeepScan]
   \<and> length (outstanding (run [DeepScan, DeepScan])) = 1
   \<and> outstanding (run [DeepScan]) \<noteq> []
   \<and> \<not> isScanning (dashboard (run [DeepScan, OracleReply Rejected (\<lambda>k. ''k3j9x0q1z'')]))
   \<and> \<not> isScanning (dashboard (run [DeepScan, OracleReply (Parsed (JArr []) (Num 42)) (\<lambda>k. ''k3j9x0q1z'')]))"
proof -
  have a: "isScanning (dashboard (run [DeepScan]))"
    by (simp add: run_def initial_def handleDeepScan_begin_def)
  have b: "outstanding (run [DeepScan]) \<noteq> []"
    by (simp add: run_def initial_def handleDeepScan_begin_def)
  have c: "run [DeepScan, e] = step (run [DeepScan]) e" for e
    by (simp add: run_def)
  have d: "length (outstanding (run [DeepScan])) = 1"
    by (simp add: run_def initial_def handleDeepScan_begin_def)
  from a b scan_exclusive [of "dashboard (run [DeepScan])" "run [DeepScan]" Rejected "\<lambda>k. ''k3j9x0q1z''" "[]"]
    scan_exclusive [of "dashboard (run [DeepScan])" "run [DeepScan]" "Parsed (JArr []) (Num 42)" "\<lambda>k. ''k3j9x0q1z''" "[]"]
  show ?thesis
    by (simp add: c d)
qed

section \<open>Log level of a tick\<close>

lemma drawLevel_cell:
  assumes "real i / 10 < u1" "u1 \<le> (real i + 1) / 10" "real j / 10 < u2" "u2 \<le> (real j + 1) / 10"
  shows "drawLevel u1 u2 = cellLevel i j"
proof -
  have a: "(u1 > 0.9) = ((2 * real i + 1) / 20 > 0.9)"
  proof (cases "i \<le> 8")
    case True
    then have "real i \<le> 8" by simp
    with assms show ?thesis by simp
  next
    case False
    then have "9 \<le> real i" by simp
    with assms show ?thesis by simp
  qed
  have b: "(u2 > 0.8) = ((2 * real j + 1) / 20 > 0.8)"
  proof (cases "j \<le> 7")
    case True
    then have "real j \<le> 7" by simp
    with assms show ?thesis by simp
  next
    case False
    then have "8 \<le> real j" by simp
    with assms show ?thesis by simp
  qed
  show ?thesis
    unfolding cellLevel_def drawLevel_def using a b by simp
qed

lemma cellLevel_cases:
  "cellLevel i j = (if 9 \<le> i then Error else if 8 \<le> j then Warning else Info)"
proof -
  have a: "((2 * real i + 1) / 20 > 0.9) = (9 \<le> i)"
  proof (cases "i \<le> 8")
    case True
    then have "real i \<le> 8" by simp
    with True show ?thesis by simp
  next
    case False
    then have "9 \<le> real i" by simp
    with False show ?thesis by simp
  qed
  have b: "((2 * real j + 1) / 20 > 0.8) = (8 \<le> j)"
  proof (cases "j \<le> 7")
    case True
    then have "real j \<le> 7" by simp
    with True show ?thesis by simp
  next
    case False
    then have "8 \<le> real j" by simp
    with False show ?thesis by simp
  qed
  show ?thesis
    unfolding cellLevel_def drawLevel_def using a b by simp
qed

lemma countLevel_values: "countLevel Error = 10 \<and> countLevel Warning = 18 \<and> countLevel Info = 72"
  by (simp add: countLevel_def cellLevel_cases upt_rec)

text \<open>
  C7 (as the code has it). The level of a tick's entry comes from two draws: error when
  the first draw is above 0.9; otherwise warning when the second draw is above 0.8;
  otherwise info. The level is constant on each of the 100 cells of the two draws, and
  10 cells give error, 18 warning and 72 info: for independent uniform draws that is
  P(error) = 0.10, P(warning) = 0.18, P(info) = 0.72. (The cells leave out a draw of
  exactly 0, an event of probability 0.)
\<close>

theorem drawLevel_two_draws:
  "(drawLevel u1 u2 = Error) = (u1 > 0.9)
   \<and> (drawLevel u1 u2 = Warning) = (u1 \<le> 0.9 \<and> u2 > 0.8)
   \<and> (drawLevel u1 u2 = Info) = (u1 \<le> 0.9 \<and> u2 \<le> 0.8)
   \<and> (real i / 10 < u1 \<and> u1 \<le> (real i + 1) / 10 \<and> real j / 10 < u2 \<and> u2 \<le> (real j + 1) / 10
        \<longrightarrow> drawLevel u1 u2 = cellLevel i j)
   \<and> countLevel Error = 10 \<and> countLevel Warning = 18 \<and> countLevel Info = 72"
proof -
  have "(drawLevel u1 u2 = Error) = (u1 > 0.9)"
    and "(drawLevel u1 u2 = Warning) = (u1 \<le> 0.9 \<and> u2 > 0.8)"
    and "(drawLevel u1 u2 = Info) = (u1 \<le> 0.9 \<and> u2 \<le> 0.8)"
    by (auto simp add: drawLevel_def)
  then show ?thesis
    using drawLevel_cell [of i u1 j u2] countLevel_values by blast
qed

theorem drawLevel_two_draws_witness:
  "real 5 / 10 < (11 / 20 :: real) \<and> (11 / 20 :: real) \<le> (real 5 + 1) / 10
   \<and> real 8 / 10 < (17 / 20 :: real) \<and> (17 / 20 :: real) \<le> (real 8 + 1) / 10
   \<and> drawLevel (11 / 20) (17 / 20) = cellLevel 5 8
   \<and> drawLevel (11 / 20) (17 / 20) = Warning"
proof -
  have h: "real 5 / 10 < (11 / 20 :: real) \<and> (11 / 20 :: real) \<le> (real 5 + 1) / 10
      \<and> real 8 / 10 < (17 / 20 :: real) \<and> (17 / 20 :: real) \<le> (real 8 + 1) / 10"
    by simp
  with drawLevel_two_draws [of "11 / 20" "17 / 20" 5 8]
  have "drawLevel (11 / 20) (17 / 20) = cellLevel 5 8"
    and "(drawLevel (11 / 20) (17 / 20) = Warning) = ((11 / 20 :: real) \<le> 0.9 \<and> (17 / 20 :: real) > 0.8)"
    by blast+
  with h show ?thesis by simp
qed

text \<open>
  C7 as stated fails: the level is not the single-draw rule applied to either draw, and
  warning has 18 cells of 100, info 72, not 10 and 80.
\<close>

theorem drawLevel_single_draw_counterexample:
  "drawLevel (1 / 2) (17 / 20) = Warning \<and> specLevel (1 / 2) = Info
   \<and> drawLevel (17 / 20) (1 / 2) = Info \<and> specLevel (17 / 20) = Warning
   \<and> countLevel Warning = 18 \<and> countLevel Info = 72"
  using countLevel_values by (simp add: drawLevel_def specLevel_def)

section \<open>Identifiers\<close>

lemma distinct_slice_last: "distinct (map f xs) \<Longrightarrow> distinct (map f (slice_last n xs))"
  by (simp add: slice_last_def drop_map [symmetric])

lemma set_slice_last: "set (slice_last n xs) \<subseteq> set xs"
  by (simp add: slice_last_def set_drop_subset)

lemma map_id_newThreats:
  "\<forall>k < length fs. own (fs ! k) ''id'' = None \<Longrightarrow>
     map threat_id (newThreats rnd fs) = map (\<lambda>k. JStr (rnd k)) [0..<length fs]"
  by (rule nth_equalityI) (simp_all add: length_newThreats nth_newThreats newThreat_def)

text \<open>
  C8 (as the code has it). The id of an appended log entry is the drawn token, or
  \<open>patch-\<close> followed by the threat id; the id of a new threat is the token drawn for its
  finding. No insertion checks the ids already present: the ids of a collection stay
  distinct when the inserted ids do not occur in it, that is when the token of a tick,
  or the audit id of a patch, is not yet an id of the log, and when a scan's tokens are
  pairwise different, none is an id of the registry and no finding has an \<^verbatim>\<open>id\<close> of
  its own.
\<close>

theorem ids_distinct_when_tokens_fresh:
  "(distinct (map log_id (logs s)) \<and> d_id d \<notin> set (map log_id (logs s))
      \<longrightarrow> distinct (map log_id (logs (telemetryTick d s))))
   \<and> (distinct (map log_id (logs s)) \<and> ''patch-'' @ i \<notin> set (map log_id (logs s))
      \<longrightarrow> distinct (map log_id (logs (patchThreat i now s))))
   \<and> (distinct (map threat_id (threats s)) \<and> scanResult r = Inr (fs, sc)
      \<and> (\<forall>k < length fs. own (fs ! k) ''id'' = None \<and> JStr (rnd k) \<notin> set (map threat_id (threats s)))
      \<and> inj_on rnd {..<length fs}
      \<longrightarrow> distinct (map threat_id (threats (handleDeepScan_resume r rnd s))))
   \<and> log_id (last (logs (telemetryTick d s))) = d_id d
   \<and> log_id (last (logs (patchThreat i now s))) = ''patch-'' @ i"
proof -
  have tick: "distinct (map log_id (logs (telemetryTick d s)))"
    if "distinct (map log_id (logs s))" "d_id d \<notin> set (map log_id (logs s))"
  proof -
    have "d_id d \<notin> log_id ` set (slice_last 49 (logs s))"
      using that(2) set_slice_last [of 49 "logs s"] by auto
    then show ?thesis
      using that(1) by (simp add: telemetryTick_def newLog_def distinct_slice_last)
  qed
  have patch: "distinct (map log_id (logs (patchThreat i now s)))"
    if "distinct (map log_id (logs s))" "''patch-'' @ i \<notin> set (map log_id (logs s))"
    using that by (simp add: patchThreat_def patchLog_def)
  have scan: "distinct (map threat_id (threats (handleDeepScan_resume r rnd s)))"
    if d: "distinct (map threat_id (threats s))" and ok: "scanResult r = Inr (fs, sc)"
      and fresh: "\<forall>k < length fs. own (fs ! k) ''id'' = None \<and> JStr (rnd k) \<notin> set (map threat_id (threats s))"
      and inj: "inj_on rnd {..<length fs}"
  proof -
    have ids: "map threat_id (newThreats rnd fs) = map (\<lambda>k. JStr (rnd k)) [0..<length fs]"
      using fresh by (simp add: map_id_newThreats)
    have "inj_on (\<lambda>k. JStr (rnd k)) {..<length fs}"
      using inj by (auto simp add: inj_on_def)
    then have "distinct (map threat_id (newThreats rnd fs))"
      by (simp add: ids distinct_map lessThan_atLeast0)
    moreover have "set (map threat_id (newThreats rnd fs)) \<inter> set (map threat_id (threats s)) = {}"
      using fresh by (auto simp add: ids)
    ultimately have "distinct (map threat_id (newThreats rnd fs @ threats s))"
      using d by simp
    then have "distinct (take 10 (map threat_id (newThreats rnd fs @ threats s)))"
      by (rule distinct_take)
    then show ?thesis
      using ok by (simp add: handleDeepScan_resume_def take_map)
  qed
  have "log_id (last (logs (telemetryTick d s))) = d_id d"
    by (simp add: telemetryTick_def newLog_def)
  moreover have "log_id (last (logs (patchThreat i now s))) = ''patch-'' @ i"
    by (simp add: patchThreat_def patchLog_def)
  ultimately show ?thesis
    using tick patch scan by blast
qed

theorem ids_distinct_when_tokens_fresh_witness:
  "distinct (map log_id (logs one_active)) \<and> d_id draws0 \<notin> set (map log_id (logs one_active))
   \<and> distinct (map log_id (logs (telemetryTick draws0 one_active)))
   \<and> ''patch-'' @ ''a1'' \<notin> set (map log_id (logs one_active))
   \<and> distinct (map log_id (logs (patchThreat ''a1'' ''12:00:00'' one_active)))
   \<and> distinct (map threat_id (threats one_active))
   \<and> scanResult (Parsed (JArr [finding_ok]) (Num 42)) = Inr ([finding_ok], Num 42)
   \<and> own finding_ok ''id'' = None
   \<and> JStr ''k3j9x0q1z'' \<notin> set (map threat_id (threats one_active))
   \<and> inj_on (\<lambda>k::nat. ''k3j9x0q1z'') {..<length [finding_ok]}
   \<and> distinct (map threat_id (threats (handleDeepScan_resume (Parsed (JArr [finding_ok]) (Num 42))
        (\<lambda>k. ''k3j9x0q1z'') one_active)))"
proof -
  have a: "distinct (map log_id (logs one_active))" "d_id draws0 \<notin> set (map log_id (logs one_active))"
    "''patch-'' @ ''a1'' \<notin> set (map log_id (logs one_active))"
    by (simp_all add: one_active_def initial_def)
  have b: "distinct (map threat_id (threats one_active))"
    "JStr ''k3j9x0q1z'' \<notin> set (map threat_id (threats one_active))"
    by (simp_all add: one_active_def threat_a_def threat_b_def)
  have c: "scanResult (Parsed (JArr [finding_ok]) (Num 42)) = Inr ([finding_ok], Num 42)"
    "own finding_ok ''id'' = None" "inj_on (\<lambda>k::nat. ''k3j9x0q1z'') {..<length [finding_ok]}"
    by (simp_all add: finding_ok_def inj_on_def)
  from b c have d: "\<forall>k < length [finding_ok]. own ([finding_ok] ! k) ''id'' = None
      \<and> JStr ((\<lambda>k. ''k3j9x0q1z'') k) \<notin> set (map threat_id (threats one_active))"
    by simp
  from a b c d
    ids_distinct_when_tokens_fresh [where s = one_active and d = draws0 and i = "''a1''"
      and now = "''12:00:00''" and r = "Parsed (JArr [finding_ok]) (Num 42)"
      and fs = "[finding_ok]" and sc = "Num 42" and rnd = "\<lambda>k. ''k3j9x0q1z''"]
  have "distinct (map log_id (logs (telemetryTick draws0 one_active)))"
    and "distinct (map log_id (logs (patchThreat ''a1'' ''12:00:00'' one_active)))"
    and "distinct (map threat_id (threats (handleDeepScan_resume (Parsed (JArr [finding_ok]) (Num 42))
        (\<lambda>k. ''k3j9x0q1z'') one_active)))"
    by blast+
  with a b c show ?thesis
    by simp
qed

text \<open>
  C8 as stated fails: patching the same id twice appends two audit entries with the
  same id, and two ticks that draw the same token append two entries with the same id.
\<close>

theorem patch_twice_duplicate_id_counterexample:
  "map log_id (logs (patchThreat ''a1'' ''12:00:01'' (patchThreat ''a1'' ''12:00:00'' one_active)))
     = [''patch-a1'', ''patch-a1'']
   \<and> map log_id (logs (telemetryTick draws0 (telemetryTick draws0 initial)))
     = [''k3j9x0q1z'', ''k3j9x0q1z'']"
  by (simp add: patchThreat_def patchLog_def telemetryTick_def newLog_def slice_last_def
      one_active_def initial_def draws0_def)

section \<open>Clearing patched threats\<close>

lemma clearPatched_nths:
  "threats (clearPatched s) =
     nths (threats s) {k. k < length (threats s) \<and> status (threats s ! k) \<noteq> Patched}"
  unfolding clearPatched_def by simp (rule filter_eq_nths)

text \<open>
  C9. \<^verbatim>\<open>clearPatched()\<close> keeps exactly the positions of the registry whose status is not
  patched, in their order: afterwards no entry is patched, every entry that was not
  patched is still present, unchanged, and the result is a subsequence of the registry.
\<close>

theorem clearPatched_exact:
  "threats (clearPatched s) =
     nths (threats s) {k. k < length (threats s) \<and> status (threats s ! k) \<noteq> Patched}
   \<and> (\<forall>t \<in> set (threats (clearPatched s)). status t \<noteq> Patched)
   \<and> (\<forall>t \<in> set (threats s). status t \<noteq> Patched \<longrightarrow> t \<in> set (threats (clearPatched s)))
   \<and> subseq (threats (clearPatched s)) (threats s)"
proof -
  have "subseq (threats (clearPatched s)) (threats s)"
    by (simp add: clearPatched_def)
  moreover have "\<forall>t \<in> set (threats (clearPatched s)). status t \<noteq> Patched"
    by (simp add: clearPatched_def)
  moreover have "\<forall>t \<in> set (threats s). status t \<noteq> Patched \<longrightarrow> t \<in> set (threats (clearPatched s))"
    by (simp add: clearPatched_def)
  ultimately show ?thesis
    using clearPatched_nths [of s] by blast
qed

theorem clearPatched_exact_witness:
  "threat_a \<in> set (threats one_active) \<and> status threat_a \<noteq> Patched
   \<and> threat_a \<in> set (threats (clearPatched one_active))
   \<and> threats (clearPatched one_active) = [threat_a]"
proof -
  have h: "threat_a \<in> set (threats one_active)" "status threat_a \<noteq> Patched"
    by (simp_all add: one_active_def threat_a_def)
  with clearPatched_exact [of one_active]
  have "threat_a \<in> set (threats (clearPatched one_active))"
    by blast
  moreover have "threats (clearPatched one_active) = [threat_a]"
    by (simp add: clearPatched_def one_active_def threat_a_def threat_b_def)
  ultimately show ?thesis
    using h by simp
qed

end
